theory Spec2Isabelle
  imports Main "HOL-Library.Sublist"
begin

section \<open>Python values used by \<open>email_server.py\<close>\<close>

text \<open>
  Exceptions are values. Only subclasses of Python's \<open>Exception\<close> are listed: these are
  the ones an \<open>except Exception\<close> clause catches.
\<close>

datatype exn =
    TypeError
  | ValueError
  | KeyError
  | UnicodeDecodeError
  | OSError
  | SSLError
  | SMTPException

text \<open>
  Truthiness of an optional string, as in \<open>not d.get(k)\<close>: \<open>None\<close> and the empty
  string are false, every other string is true.
\<close>

fun truthy :: "string option \<Rightarrow> bool" where
  "truthy None = False"
| "truthy (Some s) = (s \<noteq> [])"

text \<open>\<open>d.get(k, default)\<close> on a dictionary of strings.\<close>

definition dict_get :: "(string \<rightharpoonup> string) \<Rightarrow> string \<Rightarrow> string \<Rightarrow> string" where
  "dict_get d k dflt = (case d k of None \<Rightarrow> dflt | Some v \<Rightarrow> v)"

text \<open>\<open>sep.join(xs)\<close>.\<close>

fun str_join :: "string \<Rightarrow> string list \<Rightarrow> string" where
  "str_join sep [] = []"
| "str_join sep [x] = x"
| "str_join sep (x # y # ys) = x @ sep @ str_join sep (y # ys)"

text \<open>
  \<open>s.replace(old, new)\<close>: occurrences of \<open>old\<close> are replaced from left to right without
  overlap; an empty \<open>old\<close> matches before every character and at the end.
\<close>

function str_replace :: "string \<Rightarrow> string \<Rightarrow> string \<Rightarrow> string" where
  "str_replace old new s =
     (if old = [] then new @ concat (map (\<lambda>c. c # new) s)
      else if s = [] then []
      else if take (length old) s = old
        then new @ str_replace old new (drop (length old) s)
      else hd s # str_replace old new (tl s))"
  by pat_completeness auto
termination
  by (relation "measure (\<lambda>(old, new, s). length s)") auto

text \<open>
  \<open>int(s)\<close> on a string, base ten: surrounding whitespace is stripped, one sign is
  allowed, then decimal digits with single underscores between digits. Anything else
  raises \<open>ValueError\<close>, and so does a literal of more than 4300 digits (the interpreter's
  default limit). Characters are code points below 256.
\<close>

definition is_space :: "char \<Rightarrow> bool" where
  "is_space c = (of_char c \<in> set [9, 10, 11, 12, 13, 28, 29, 30, 31, 32, 133, 160 :: nat])"

definition is_digit :: "char \<Rightarrow> bool" where
  "is_digit c = (48 \<le> (of_char c :: nat) \<and> (of_char c :: nat) \<le> 57)"

definition digit_val :: "char \<Rightarrow> int" where
  "digit_val c = int (of_char c) - 48"

definition str_strip :: "string \<Rightarrow> string" where
  "str_strip s = rev (dropWhile is_space (rev (dropWhile is_space s)))"

fun scan_digits :: "bool \<Rightarrow> int \<Rightarrow> string \<Rightarrow> int option" where
  "scan_digits prev acc [] = (if prev then Some acc else None)"
| "scan_digits prev acc (c # cs) =
     (if is_digit c then scan_digits True (acc * 10 + digit_val c) cs
      else if c = CHR ''_'' \<and> prev then scan_digits False acc cs
      else None)"

definition py_int :: "string \<Rightarrow> exn + int" where
  "py_int s =
     (let t = str_strip s;
          neg = (t \<noteq> [] \<and> hd t = CHR ''-'');
          body = (if t \<noteq> [] \<and> (hd t = CHR ''-'' \<or> hd t = CHR ''+'') then tl t else t)
      in if 4300 < length (filter is_digit body) then Inl ValueError
         else (case scan_digits False 0 body of
                 None \<Rightarrow> Inl ValueError
               | Some n \<Rightarrow> Inr (if neg then - n else n)))"

section \<open>Configuration loader\<close>

text \<open>
  The process environment is a dictionary of strings; \<open>os.getenv(k)\<close> is a lookup and
  \<open>os.getenv(k, default)\<close> a lookup with a default.
\<close>

type_synonym environ = "string \<rightharpoonup> string"

text \<open>
  The dictionary built by \<open>_load_email_config\<close>. The three credentials come from
  \<open>os.getenv\<close> without a default, so each may be \<open>None\<close>.
\<close>

record email_config =
  smtp_server :: string
  smtp_port :: int
  sender_email :: "string option"
  sender_password :: "string option"
  recipient_email :: "string option"

definition config_missing_fields :: "email_config \<Rightarrow> string list" where
  "config_missing_fields config =
     map fst (filter (\<lambda>(field, v). \<not> truthy v)
       [(''sender_email'', sender_email config),
        (''sender_password'', sender_password config),
        (''recipient_email'', recipient_email config)])"

text \<open>
  \<open>_load_email_config\<close>. The dictionary display evaluates \<open>int(os.getenv('SMTP_PORT',
  '587'))\<close> outside any \<open>try\<close>, so a \<open>ValueError\<close> of the conversion leaves the function.
  \<open>Inr None\<close> is the result \<open>None\<close> (unconfigured), \<open>Inr (Some config)\<close> a configuration.
\<close>

definition load_email_config :: "environ \<Rightarrow> exn + email_config option" where
  "load_email_config env =
     (case py_int (dict_get env ''SMTP_PORT'' ''587'') of
        Inl e \<Rightarrow> Inl e
      | Inr port \<Rightarrow>
          (let config = \<lparr> smtp_server = dict_get env ''SMTP_SERVER'' ''smtp.gmail.com'',
                          smtp_port = port,
                          sender_email = env ''SENDER_EMAIL'',
                          sender_password = env ''SENDER_PASSWORD'',
                          recipient_email = env ''RECIPIENT_EMAIL'' \<rparr>
           in if config_missing_fields config \<noteq> [] then Inr None
              else Inr (Some config)))"

section \<open>The request handler and what it talks to\<close>

text \<open>
  A request as the handler reads it: the path and the value of the \<open>Content-Length\<close>
  header (\<open>self.headers['Content-Length']\<close> is \<open>None\<close> when the header is absent).
\<close>

type_synonym bytes = "char list"

record request =
  path :: string
  content_length :: "string option"

text \<open>
  The library calls of one request, taken as parameters: reading the body, decoding it,
  \<open>urllib.parse.parse_qs\<close>, the steps of the SMTP session, opening the log file,
  writing to it and closing it, and the clock. Each call returns its value or the
  exception it raises. \<open>write_fault k\<close> is the exception raised by the \<open>k\<close>-th call of
  \<open>f.write\<close>, counted from zero, and \<open>close_fault\<close> the one raised when the \<open>with\<close>
  block is left and the file object flushes its buffer and closes. The file object is
  buffered: when a write or the close raises, \<open>flushed\<close> is the number of characters
  handed to \<open>f.write\<close> so far that have reached the file.
\<close>

datatype smtp_step = CreateContext | Connect | StartTLS | Login | AsString | SendMail | Quit

record world =
  rfile_read :: "int \<Rightarrow> exn + bytes"
  bytes_decode :: "bytes \<Rightarrow> exn + string"
  parse_qs :: "string \<Rightarrow> exn + (string \<times> string list) list"
  smtp_fault :: "smtp_step \<Rightarrow> exn option"
  open_fault :: "exn option"
  write_fault :: "nat \<Rightarrow> exn option"
  close_fault :: "exn option"
  flushed :: nat
  now_isoformat :: string
  now_strftime :: string

text \<open>
  A response: the status of \<open>send_response\<close>, the headers the handler adds with
  \<open>send_header\<close>, and the body. \<open>Json success message\<close> is the dictionary handed to
  \<open>json.dumps\<close>; \<open>ErrorPage\<close> is the page \<open>send_error\<close> produces.
\<close>

datatype payload = Json bool string | ErrorPage string

record response =
  status :: nat
  headers :: "(string \<times> string) list"
  body :: payload

record mime_message =
  msg_from :: "string option"
  msg_to :: "string option"
  msg_subject :: string
  msg_html :: string

text \<open>
  What a request can change: the file \<open>form_submissions.log\<close> (\<open>None\<close> while it does
  not exist), the messages accepted by the mail server, and the responses written to the
  client. Writing a response is taken to succeed.
\<close>

record server_state =
  log_file :: "string option"
  outbox :: "mime_message list"
  responses :: "response list"

type_synonym submission = "string \<rightharpoonup> string"

subsection \<open>Responses\<close>

definition end_headers :: "(string \<times> string) list \<Rightarrow> (string \<times> string) list" where
  "end_headers hs = hs @
     [(''Access-Control-Allow-Origin'', ''*''),
      (''Access-Control-Allow-Methods'', ''GET, POST, OPTIONS''),
      (''Access-Control-Allow-Headers'', ''Content-Type'')]"

definition send_success_response :: "string \<Rightarrow> server_state \<Rightarrow> server_state" where
  "send_success_response message st =
     st\<lparr>responses := responses st @
       [\<lparr> status = 200,
          headers = end_headers [(''Content-type'', ''application/json''),
                                 (''Access-Control-Allow-Origin'', ''*'')],
          body = Json True message \<rparr>]\<rparr>"

definition send_error_response :: "string \<Rightarrow> server_state \<Rightarrow> server_state" where
  "send_error_response message st =
     st\<lparr>responses := responses st @
       [\<lparr> status = 400,
          headers = end_headers [(''Content-type'', ''application/json''),
                                 (''Access-Control-Allow-Origin'', ''*'')],
          body = Json False message \<rparr>]\<rparr>"

text \<open>\<open>send_error(404, "Not Found")\<close>; the headers the library adds itself are left out.\<close>

definition send_error :: "nat \<Rightarrow> string \<Rightarrow> server_state \<Rightarrow> server_state" where
  "send_error code message st =
     st\<lparr>responses := responses st @
       [\<lparr> status = code, headers = end_headers [], body = ErrorPage message \<rparr>]\<rparr>"

subsection \<open>Parsing and validation\<close>

fun first_or_empty :: "string list \<Rightarrow> string" where
  "first_or_empty [] = []"
| "first_or_empty (v # vs) = v"

text \<open>The loop over \<open>form_data.items()\<close>.\<close>

definition extract_fields :: "(string \<times> string list) list \<Rightarrow> submission" where
  "extract_fields form_data =
     fold (\<lambda>(key, value) submission. submission(key \<mapsto> first_or_empty value))
       form_data Map.empty"

text \<open>
  The first statements of the \<open>try\<close> block: the length, the body, its decoding and the
  field extraction. \<open>int(None)\<close> raises \<open>TypeError\<close>.
\<close>

definition parse_form :: "world \<Rightarrow> request \<Rightarrow> exn + submission" where
  "parse_form w req =
     (case content_length req of
        None \<Rightarrow> Inl TypeError
      | Some h \<Rightarrow>
          (case py_int h of
             Inl e \<Rightarrow> Inl e
           | Inr n \<Rightarrow>
               (case rfile_read w n of
                  Inl e \<Rightarrow> Inl e
                | Inr post_data \<Rightarrow>
                    (case bytes_decode w post_data of
                       Inl e \<Rightarrow> Inl e
                     | Inr text \<Rightarrow>
                         (case parse_qs w text of
                            Inl e \<Rightarrow> Inl e
                          | Inr form_data \<Rightarrow> Inr (extract_fields form_data))))))"

definition required_fields :: "string list" where
  "required_fields = [''name'', ''email'', ''project_type'', ''budget'', ''description'']"

definition missing_fields :: "submission \<Rightarrow> string list" where
  "missing_fields submission = filter (\<lambda>field. \<not> truthy (submission field)) required_fields"

subsection \<open>Mail\<close>

text \<open>
  \<open>_format_email_body\<close>. The replacement in the description paragraph is written
  \<open>replace('\\n', '<br>')\<close> inside the replacement field of an f-string, where the
  literal is read as ordinary Python: its first argument is the two characters backslash
  and \<open>n\<close>.
\<close>

definition format_email_body :: "world \<Rightarrow> submission \<Rightarrow> string" where
  \<open>format_email_body w submission =
   ''\<newline>'' @
   ''        <html>\<newline>'' @
   ''        <body style="font-family: Arial, sans-serif; line-height: 1.6; color: #333;">\<newline>'' @
   ''            <h2 style="color: #16a34a;">New House of Agile Contact Form Submission</h2>\<newline>'' @
   ''\<newline>'' @
   ''            <div style="background: #f8f9fa; padding: 20px; border-radius: 8px; margin: 20px 0;">\<newline>'' @
   ''                <h3 style="color: #16a34a; margin-top: 0;">Contact Information</h3>\<newline>'' @
   ''                <p><strong>Name:</strong> '' @
   dict_get submission ''name'' ''N/A'' @
   ''</p>\<newline>'' @
   ''                <p><strong>Email:</strong> '' @
   dict_get submission ''email'' ''N/A'' @
   ''</p>\<newline>'' @
   ''                <p><strong>Company:</strong> '' @
   dict_get submission ''company'' ''N/A'' @
   ''</p>\<newline>'' @
   ''            </div>\<newline>'' @
   ''\<newline>'' @
   ''            <div style="background: #f8f9fa; padding: 20px; border-radius: 8px; margin: 20px 0;">\<newline>'' @
   ''                <h3 style="color: #16a34a; margin-top: 0;">Project Details</h3>\<newline>'' @
   ''                <p><strong>Project Type:</strong> '' @
   dict_get submission ''project_type'' ''N/A'' @
   ''</p>\<newline>'' @
   ''                <p><strong>Budget:</strong> '' @
   dict_get submission ''budget'' ''N/A'' @
   ''</p>\<newline>'' @
   ''                <p><strong>Timeline:</strong> '' @
   dict_get submission ''timeline'' ''N/A'' @
   ''</p>\<newline>'' @
   ''                <p><strong>Location:</strong> '' @
   dict_get submission ''location'' ''N/A'' @
   ''</p>\<newline>'' @
   ''            </div>\<newline>'' @
   ''\<newline>'' @
   ''            <div style="background: #f8f9fa; padding: 20px; border-radius: 8px; margin: 20px 0;">\<newline>'' @
   ''                <h3 style="color: #16a34a; margin-top: 0;">Project Description</h3>\<newline>'' @
   ''                <p>'' @
   str_replace [CHR 0x5C, CHR ''n''] ''<br>'' (dict_get submission ''description'' ''N/A'') @
   ''</p>\<newline>'' @
   ''            </div>\<newline>'' @
   ''\<newline>'' @
   ''            <div style="margin-top: 30px; padding-top: 20px; border-top: 1px solid #dee2e6;">\<newline>'' @
   ''                <p style="color: #666; font-size: 12px;">\<newline>'' @
   ''                    Submitted on '' @
   now_strftime w @
   ''\<newline>'' @
   ''                </p>\<newline>'' @
   ''            </div>\<newline>'' @
   ''        </body>\<newline>'' @
   ''        </html>\<newline>'' @
   ''        ''\<close>

text \<open>The first step of the SMTP session that raises, if any.\<close>

fun first_fault :: "(smtp_step \<Rightarrow> exn option) \<Rightarrow> smtp_step list \<Rightarrow> exn option" where
  "first_fault fault [] = None"
| "first_fault fault (s # ss) =
     (case fault s of Some e \<Rightarrow> Some e | None \<Rightarrow> first_fault fault ss)"

text \<open>
  \<open>_send_notification_email\<close>: everything runs inside \<open>try ... except Exception\<close>, so
  each raise ends in \<open>return False\<close>. \<open>submission['name']\<close> and \<open>submission['email']\<close>
  raise \<open>KeyError\<close> on an absent key. The message is in the outbox once \<open>sendmail\<close> has
  returned; leaving the \<open>with\<close> block sends \<open>QUIT\<close>.
\<close>

definition send_notification_email ::
    "world \<Rightarrow> email_config \<Rightarrow> submission \<Rightarrow> server_state \<Rightarrow> bool \<times> server_state" where
  "send_notification_email w config submission st =
     (case submission ''name'' of
        None \<Rightarrow> (False, st)
      | Some name \<Rightarrow>
          (let msg = \<lparr> msg_from = sender_email config,
                       msg_to = recipient_email config,
                       msg_subject = ''New Contact Form Submission from '' @ name,
                       msg_html = format_email_body w submission \<rparr>
           in case first_fault (smtp_fault w)
                     [CreateContext, Connect, StartTLS, Login, AsString, SendMail] of
                Some e \<Rightarrow> (False, st)
              | None \<Rightarrow>
                  (let st' = st\<lparr>outbox := outbox st @ [msg]\<rparr>
                   in case smtp_fault w Quit of
                        Some e \<Rightarrow> (False, st')
                      | None \<Rightarrow>
                          (case submission ''email'' of
                             None \<Rightarrow> (False, st')
                           | Some email \<Rightarrow> (True, st')))))"

subsection \<open>Log file\<close>

text \<open>The ten strings \<open>_log_submission\<close> passes to \<open>f.write\<close>, in order.\<close>

definition log_writes :: "world \<Rightarrow> submission \<Rightarrow> string list" where
  "log_writes w submission =
     [''\<newline>'' @ replicate 50 (CHR ''='') @ ''\<newline>'',
      ''Timestamp: '' @ now_isoformat w @ ''\<newline>'',
      ''Name: '' @ dict_get submission ''name'' ''N/A'' @ ''\<newline>'',
      ''Email: '' @ dict_get submission ''email'' ''N/A'' @ ''\<newline>'',
      ''Company: '' @ dict_get submission ''company'' ''N/A'' @ ''\<newline>'',
      ''Project Type: '' @ dict_get submission ''project_type'' ''N/A'' @ ''\<newline>'',
      ''Budget: '' @ dict_get submission ''budget'' ''N/A'' @ ''\<newline>'',
      ''Timeline: '' @ dict_get submission ''timeline'' ''N/A'' @ ''\<newline>'',
      ''Location: '' @ dict_get submission ''location'' ''N/A'' @ ''\<newline>'',
      ''Description: '' @ dict_get submission ''description'' ''N/A'' @ ''\<newline>'']"

text \<open>
  The calls of \<open>f.write\<close> in order: the result is the exception of the first call that
  raises, if any, and the characters handed to the file object up to and including that
  call.
\<close>

fun write_all :: "(nat \<Rightarrow> exn option) \<Rightarrow> nat \<Rightarrow> string list \<Rightarrow> string \<Rightarrow> exn option \<times> string" where
  "write_all fault k [] buffered = (None, buffered)"
| "write_all fault k (x # xs) buffered =
     (case fault k of
        Some e \<Rightarrow> (Some e, buffered @ x)
      | None \<Rightarrow> write_all fault (Suc k) xs (buffered @ x))"

text \<open>
  \<open>_log_submission\<close> has no \<open>try\<close>: an exception of \<open>open\<close>, of a write, or of the close
  on leaving the \<open>with\<close> block leaves the function. Mode \<open>'a'\<close> creates the file when it
  does not exist and writes at its end. When everything succeeds the file holds all the
  characters written; when a write or the close raises it holds the first \<open>flushed\<close> of
  them.
\<close>

definition log_submission :: "world \<Rightarrow> submission \<Rightarrow> server_state \<Rightarrow> exn option \<times> server_state" where
  "log_submission w submission st =
     (case open_fault w of
        Some e \<Rightarrow> (Some e, st)
      | None \<Rightarrow>
          (let old = (case log_file st of None \<Rightarrow> [] | Some c \<Rightarrow> c);
               (r, buffered) = write_all (write_fault w) 0 (log_writes w submission) []
           in case r of
                Some e \<Rightarrow> (Some e, st\<lparr>log_file := Some (old @ take (flushed w) buffered)\<rparr>)
              | None \<Rightarrow>
                  (case close_fault w of
                     Some e \<Rightarrow>
                       (Some e, st\<lparr>log_file := Some (old @ take (flushed w) buffered)\<rparr>)
                   | None \<Rightarrow> (None, st\<lparr>log_file := Some (old @ buffered)\<rparr>))))"

subsection \<open>The handler\<close>

text \<open>
  \<open>_handle_form_submission\<close>. The body of the \<open>try\<close> is followed branch by branch; every
  exception that leaves it reaches the \<open>except Exception\<close> clause, which sends the
  generic error response. \<open>email_config\<close> is the attribute set by the constructor:
  \<open>None\<close> or a dictionary, which is true as a condition.
\<close>

definition handle_form_submission ::
    "world \<Rightarrow> email_config option \<Rightarrow> request \<Rightarrow> server_state \<Rightarrow> server_state" where
  "handle_form_submission w email_config req st =
     (case parse_form w req of
        Inl e \<Rightarrow> send_error_response ''An error occurred. Please try again.'' st
      | Inr submission \<Rightarrow>
          (if missing_fields submission \<noteq> [] then
             send_error_response
               (''Missing required fields: '' @ str_join '', '' (missing_fields submission)) st
           else
             (case email_config of
                Some config \<Rightarrow>
                  (let (email_sent, st') = send_notification_email w config submission st
                   in if email_sent then
                        send_success_response
                          ''Thank you! Your message has been sent successfully.'' st'
                      else
                        send_error_response
                          ''Failed to send email. Please try again or contact us directly.'' st')
              | None \<Rightarrow>
                  (case log_submission w submission st of
                     (Some e, st') \<Rightarrow>
                       send_error_response ''An error occurred. Please try again.'' st'
                   | (None, st') \<Rightarrow>
                       send_success_response
                         ''Thank you! Your message has been received. We'll get back to you soon.''
                         st'))))"

definition do_POST ::
    "world \<Rightarrow> email_config option \<Rightarrow> request \<Rightarrow> server_state \<Rightarrow> server_state" where
  "do_POST w email_config req st =
     (if path req = ''/submit-form'' then handle_form_submission w email_config req st
      else send_error 404 ''Not Found'' st)"

section \<open>The validator as the specification words it\<close>

text \<open>
  The specification's notion of a missing field, for comparison with \<open>missing_fields\<close>:
  a field is missing when its key is absent or its value is empty after trimming.
\<close>

definition spec_field_missing :: "submission \<Rightarrow> string \<Rightarrow> bool" where
  "spec_field_missing submission field =
     (case submission field of None \<Rightarrow> True | Some v \<Rightarrow> str_strip v = [])"

section \<open>Sample requests\<close>

text \<open>
  A world in which the client sent \<open>post_data\<close>, \<open>parse_qs\<close> answers \<open>form_data\<close> for it, the
  mail server accepts everything and the log file can be written and closed.
\<close>

definition sample_world :: "bytes \<Rightarrow> (string \<times> string list) list \<Rightarrow> world" where
  "sample_world post_data form_data =
     \<lparr> rfile_read = (\<lambda>n. Inr (if n < 0 then post_data else take (nat n) post_data)),
       bytes_decode = (\<lambda>b. Inr b),
       parse_qs = (\<lambda>s. if s = post_data then Inr form_data else Inr []),
       smtp_fault = (\<lambda>s. None),
       open_fault = None,
       write_fault = (\<lambda>k. None),
       close_fault = None,
       flushed = 0,
       now_isoformat = ''2024-05-17T09:30:00.123456'',
       now_strftime = ''2024-05-17 09:30:00 UTC'' \<rparr>"

text \<open>The example submission of the specification and its body on the wire.\<close>

definition ada_body :: bytes where
  "ada_body = ''name=Ada&email=ada%40x.com&project_type=web&budget=%2410k&description=Need+a+site.%0AFast+turnaround.''"

definition ada_form :: "(string \<times> string list) list" where
  "ada_form =
     [(''name'', [''Ada'']), (''email'', [''ada@x.com'']), (''project_type'', [''web'']),
      (''budget'', [''$10k'']), (''description'', [''Need a site.\<newline>Fast turnaround.''])]"

definition ada_request :: request where
  "ada_request = \<lparr> path = ''/submit-form'', content_length = Some ''101'' \<rparr>"

text \<open>A submission with two of the required fields only.\<close>

definition partial_body :: bytes where
  "partial_body = ''email=ada%40x.com&budget=%2410k''"

definition partial_form :: "(string \<times> string list) list" where
  "partial_form = [(''email'', [''ada@x.com'']), (''budget'', [''$10k''])]"

definition partial_request :: request where
  "partial_request = \<lparr> path = ''/submit-form'', content_length = Some ''31'' \<rparr>"

text \<open>A submission whose name is one space (\<open>name=+\<close> on the wire).\<close>

definition blank_name_body :: bytes where
  "blank_name_body = ''name=+&email=ada%40x.com&project_type=web&budget=%2410k&description=Need+a+site.''"

definition blank_name_form :: "(string \<times> string list) list" where
  "blank_name_form =
     [(''name'', ['' '']), (''email'', [''ada@x.com'']), (''project_type'', [''web'']),
      (''budget'', [''$10k'']), (''description'', [''Need a site.''])]"

definition blank_name_request :: request where
  "blank_name_request = \<lparr> path = ''/submit-form'', content_length = Some ''80'' \<rparr>"

text \<open>The same client, with a log file that cannot be opened.\<close>

definition readonly_log_world :: world where
  "readonly_log_world = (sample_world ada_body ada_form)\<lparr>open_fault := Some OSError\<rparr>"

text \<open>The same client, with a mail server that cannot be reached.\<close>

definition unreachable_mail_world :: world where
  "unreachable_mail_world =
     (sample_world ada_body ada_form)
       \<lparr>smtp_fault := (\<lambda>s. if s = Connect then Some OSError else None)\<rparr>"

definition sample_config :: email_config where
  "sample_config =
     \<lparr> smtp_server = ''smtp.gmail.com'', smtp_port = 587,
       sender_email = Some ''noreply@houseofagile.com'',
       sender_password = Some ''abcd efgh ijkl mnop'',
       recipient_email = Some ''jc@houseofagile.com'' \<rparr>"

definition sample_environ :: environ where
  "sample_environ =
     [''SENDER_EMAIL'' \<mapsto> ''noreply@houseofagile.com'',
      ''SENDER_PASSWORD'' \<mapsto> ''abcd efgh ijkl mnop'',
      ''RECIPIENT_EMAIL'' \<mapsto> ''jc@houseofagile.com'']"

definition fresh_state :: server_state where
  "fresh_state = \<lparr> log_file = None, outbox = [], responses = [] \<rparr>"

section \<open>Auxiliary facts\<close>

lemma first_fault_None_iff: "first_fault fault ss = None \<longleftrightarrow> (\<forall>s\<in>set ss. fault s = None)"
  by (induction ss) (auto split: option.splits)

lemma write_all_ok:
  "(\<forall>i<length xs. fault (k + i) = None) \<Longrightarrow> write_all fault k xs content = (None, content @ concat xs)"
proof (induction xs arbitrary: k content)
  case Nil
  then show ?case by simp
next
  case (Cons x xs)
  from Cons.prems have h0: "fault k = None" by force
  have "\<forall>i<length xs. fault (Suc k + i) = None"
  proof (intro allI impI)
    fix i assume "i < length xs"
    then have "Suc i < length (x # xs)" by simp
    with Cons.prems have "fault (k + Suc i) = None" by blast
    then show "fault (Suc k + i) = None" by simp
  qed
  from Cons.IH[OF this] h0 show ?case by simp
qed

lemma write_all_fails:
  "i < length xs \<Longrightarrow> fault (k + i) = Some e \<Longrightarrow> \<exists>e' c. write_all fault k xs content = (Some e', c)"
proof (induction xs arbitrary: k i content)
  case Nil
  then show ?case by simp
next
  case (Cons x xs)
  show ?case
  proof (cases "fault k")
    case (Some a)
    then show ?thesis by simp
  next
    case None
    with Cons.prems obtain j where j: "i = Suc j" by (cases i) auto
    with Cons.prems have "j < length xs" "fault (Suc k + j) = Some e" by auto
    from Cons.IH[OF this] None show ?thesis by simp
  qed
qed

lemma missing_fields_Nil_iff:
  "missing_fields submission = [] \<longleftrightarrow> (\<forall>f\<in>set required_fields. \<exists>v. submission f = Some v \<and> v \<noteq> [])"
proof -
  have "\<not> truthy x \<longleftrightarrow> \<not> (\<exists>v. x = Some v \<and> v \<noteq> [])" for x
    by (cases x) auto
  then show ?thesis
    unfolding missing_fields_def by (auto simp: filter_empty_conv)
qed

lemma missing_fields_filter:
  "missing_fields submission =
     filter (\<lambda>field. submission field = None \<or> submission field = Some [])
       [''name'', ''email'', ''project_type'', ''budget'', ''description'']"
proof -
  have "\<not> truthy x \<longleftrightarrow> x = None \<or> x = Some []" for x
    by (cases x) auto
  then show ?thesis
    unfolding missing_fields_def required_fields_def by simp
qed

lemma send_notification_email_frame:
  "log_file (snd (send_notification_email w config submission st)) = log_file st"
  "responses (snd (send_notification_email w config submission st)) = responses st"
  by (simp_all add: send_notification_email_def Let_def split: option.splits)

lemma log_submission_frame:
  "responses (snd (log_submission w submission st)) = responses st"
  "outbox (snd (log_submission w submission st)) = outbox st"
  by (simp_all add: log_submission_def Let_def case_prod_beta split: option.splits)

lemma parse_sample:
  "length post_data = n \<Longrightarrow> py_int h = Inr (int n) \<Longrightarrow>
   parse_form (sample_world post_data form_data) \<lparr> path = p, content_length = Some h \<rparr>
     = Inr (extract_fields form_data)"
  by (simp add: parse_form_def sample_world_def)

lemma py_int_101: "py_int ''101'' = Inr 101" 
  by (simp add: py_int_def str_strip_def is_space_def is_digit_def digit_val_def)
lemma py_int_31: "py_int ''31'' = Inr 31" 
  by (simp add: py_int_def str_strip_def is_space_def is_digit_def digit_val_def)
lemma py_int_80: "py_int ''80'' = Inr 80" 
  by (simp add: py_int_def str_strip_def is_space_def is_digit_def digit_val_def)

lemma parse_ada:
  "parse_form (sample_world ada_body ada_form) ada_request = Inr (extract_fields ada_form)"
  unfolding ada_request_def by (rule parse_sample[where n = 101]) (simp_all add: ada_body_def py_int_101)

lemma parse_partial:
  "parse_form (sample_world partial_body partial_form) partial_request = Inr (extract_fields partial_form)"
  unfolding partial_request_def by (rule parse_sample[where n = 31]) (simp_all add: partial_body_def py_int_31)

lemma parse_blank_name:
  "parse_form (sample_world blank_name_body blank_name_form) blank_name_request = Inr (extract_fields blank_name_form)"
  unfolding blank_name_request_def by (rule parse_sample[where n = 80]) (simp_all add: blank_name_body_def py_int_80)

lemma missing_ada: "missing_fields (extract_fields ada_form) = []"
  by (simp add: missing_fields_def required_fields_def extract_fields_def ada_form_def)

lemma missing_partial:
  "missing_fields (extract_fields partial_form) = [''name'', ''project_type'', ''description'']"
  by (simp add: missing_fields_def required_fields_def extract_fields_def partial_form_def)

lemma missing_blank_name: "missing_fields (extract_fields blank_name_form) = []"
  by (simp add: missing_fields_def required_fields_def extract_fields_def blank_name_form_def)


lemma parse_form_faults:
  "parse_form (w\<lparr>open_fault := x\<rparr>) req = parse_form w req"
  "parse_form (w\<lparr>smtp_fault := y\<rparr>) req = parse_form w req"
  by (simp_all add: parse_form_def split: option.split sum.split)

section \<open>Validation failures\<close>

text \<open>
  C1. When the decoded submission lacks at least one of the five required fields (the key
  is absent or its value is the empty string), the handler answers with status 400 and
  the message \<open>Missing required fields:\<close> followed by exactly the missing names, joined
  by a comma and a space, in the order name, email, project_type, budget, description.
  The state is otherwise unchanged whatever the mail server and the file system would
  have answered: no mail is sent and nothing is appended to the log.
\<close>

theorem missing_fields_rejected:
  assumes "parse_form w req = Inr submission"
    and "missing_fields submission \<noteq> []"
  shows "handle_form_submission w cfg req st =
     st\<lparr>responses := responses st @
       [\<lparr> status = 400,
          headers = [(''Content-type'', ''application/json''),
                     (''Access-Control-Allow-Origin'', ''*''),
                     (''Access-Control-Allow-Origin'', ''*''),
                     (''Access-Control-Allow-Methods'', ''GET, POST, OPTIONS''),
                     (''Access-Control-Allow-Headers'', ''Content-Type'')],
          body = Json False
            (''Missing required fields: '' @
             str_join '', ''
               (filter (\<lambda>field. submission field = None \<or> submission field = Some [])
                  [''name'', ''email'', ''project_type'', ''budget'', ''description''])) \<rparr>]\<rparr>"
proof -
  have "handle_form_submission w cfg req st =
      send_error_response
        (''Missing required fields: '' @ str_join '', '' (missing_fields submission)) st"
    using assms by (simp add: handle_form_submission_def)
  then show ?thesis
    by (simp add: send_error_response_def end_headers_def missing_fields_filter)
qed

theorem missing_fields_rejected_witness:
  "parse_form (sample_world partial_body partial_form) partial_request
     = Inr (extract_fields partial_form)
   \<and> missing_fields (extract_fields partial_form) \<noteq> []
   \<and> handle_form_submission (sample_world partial_body partial_form) (Some sample_config)
        partial_request fresh_state =
      \<lparr> log_file = None, outbox = [],
        responses =
          [\<lparr> status = 400,
             headers = [(''Content-type'', ''application/json''),
                        (''Access-Control-Allow-Origin'', ''*''),
                        (''Access-Control-Allow-Origin'', ''*''),
                        (''Access-Control-Allow-Methods'', ''GET, POST, OPTIONS''),
                        (''Access-Control-Allow-Headers'', ''Content-Type'')],
             body = Json False ''Missing required fields: name, project_type, description'' \<rparr>] \<rparr>"
proof -
  have m: "missing_fields (extract_fields partial_form) \<noteq> []"
    by (simp add: missing_partial)
  have "extract_fields partial_form ''name'' = None"
       "extract_fields partial_form ''email'' = Some ''ada@x.com''"
       "extract_fields partial_form ''project_type'' = None"
       "extract_fields partial_form ''budget'' = Some ''$10k''"
       "extract_fields partial_form ''description'' = None"
    by (simp_all add: extract_fields_def partial_form_def)
  with missing_fields_rejected [OF parse_partial m, of "Some sample_config" fresh_state]
  show ?thesis
    using parse_partial m by (simp add: fresh_state_def)
qed

section \<open>Unconfigured mode\<close>

text \<open>
  C2, as stated, promises status 200 even when the append to the log file fails. It does
  not hold: \<open>_log_submission\<close> has no handler of its own, so an exception of \<open>open\<close>
  reaches the outer \<open>except\<close> clause and the client receives the generic 400 response.
  Here the log file cannot be opened.
\<close>

theorem log_failure_reaches_client:
  "parse_form (sample_world ada_body ada_form) ada_request = Inr (extract_fields ada_form)
   \<and> missing_fields (extract_fields ada_form) = []
   \<and> open_fault readonly_log_world = Some OSError
   \<and> responses (handle_form_submission readonly_log_world None ada_request fresh_state) =
      [\<lparr> status = 400,
         headers = [(''Content-type'', ''application/json''),
                    (''Access-Control-Allow-Origin'', ''*''),
                    (''Access-Control-Allow-Origin'', ''*''),
                    (''Access-Control-Allow-Methods'', ''GET, POST, OPTIONS''),
                    (''Access-Control-Allow-Headers'', ''Content-Type'')],
         body = Json False ''An error occurred. Please try again.'' \<rparr>]"
proof -
  have p: "parse_form readonly_log_world ada_request = Inr (extract_fields ada_form)"
    using parse_ada by (simp add: readonly_log_world_def parse_form_faults)
  have o: "open_fault readonly_log_world = Some OSError"
    by (simp add: readonly_log_world_def)
  show ?thesis
    using parse_ada missing_ada
    by (simp add: handle_form_submission_def p o log_submission_def
        send_error_response_def end_headers_def fresh_state_def)
qed

text \<open>
  C2, amended. For a submission with all five required fields in unconfigured mode: when
  opening the log file, the ten writes and the close on leaving the \<open>with\<close> block all
  succeed, the response is 200 with the "received" message; when opening, one of the
  writes or the close raises, the response is 400 with the message \<open>An error occurred.
  Please try again.\<close>
\<close>

theorem unconfigured_response:
  assumes "parse_form w req = Inr submission"
    and "missing_fields submission = []"
  shows "(open_fault w = None \<and> (\<forall>k<10. write_fault w k = None) \<and> close_fault w = None
            \<longrightarrow>
            (\<exists>hs. responses (handle_form_submission w None req st) = responses st @
               [\<lparr> status = 200, headers = hs,
                  body = Json True
                    ''Thank you! Your message has been received. We'll get back to you soon.'' \<rparr>]))
       \<and> ((\<exists>e. open_fault w = Some e) \<or> (\<exists>k<10. \<exists>e. write_fault w k = Some e)
              \<or> (\<exists>e. close_fault w = Some e) \<longrightarrow>
            (\<exists>hs. responses (handle_form_submission w None req st) = responses st @
               [\<lparr> status = 400, headers = hs,
                  body = Json False ''An error occurred. Please try again.'' \<rparr>]))"
proof (intro conjI impI)
  assume ok: "open_fault w = None \<and> (\<forall>k<10. write_fault w k = None) \<and> close_fault w = None"
  have len: "length (log_writes w submission) = 10" by (simp add: log_writes_def)
  have "write_all (write_fault w) 0 (log_writes w submission) []
          = (None, [] @ concat (log_writes w submission))"
    by (rule write_all_ok) (use ok len in simp)
  then show "\<exists>hs. responses (handle_form_submission w None req st) = responses st @
               [\<lparr> status = 200, headers = hs,
                  body = Json True
                    ''Thank you! Your message has been received. We'll get back to you soon.'' \<rparr>]"
    using assms ok
    by (simp add: handle_form_submission_def log_submission_def send_success_response_def)
next
  assume bad: "(\<exists>e. open_fault w = Some e) \<or> (\<exists>k<10. \<exists>e. write_fault w k = Some e)
              \<or> (\<exists>e. close_fault w = Some e)"
  have len: "length (log_writes w submission) = 10" by (simp add: log_writes_def)
  obtain r b where wr: "write_all (write_fault w) 0 (log_writes w submission) [] = (r, b)"
    by (cases "write_all (write_fault w) 0 (log_writes w submission) []")
  have "\<exists>e st'. log_submission w submission st = (Some e, st') \<and> responses st' = responses st"
  proof (cases "open_fault w")
    case (Some e)
    then show ?thesis by (simp add: log_submission_def)
  next
    case None
    show ?thesis
    proof (cases r)
      case (Some e')
      with None wr show ?thesis by (simp add: log_submission_def)
    next
      case no_write_fault: None
      have "\<exists>e. close_fault w = Some e"
      proof (rule ccontr)
        assume "\<not> (\<exists>e. close_fault w = Some e)"
        with bad None obtain k e where k: "k < 10" "write_fault w k = Some e" by auto
        have "\<exists>e' c'. write_all (write_fault w) 0 (log_writes w submission) [] = (Some e', c')"
          by (rule write_all_fails[where i = k and e = e]) (use k len in simp_all)
        with wr no_write_fault show False by simp
      qed
      then obtain e where "close_fault w = Some e" by blast
      with None wr no_write_fault show ?thesis by (simp add: log_submission_def)
    qed
  qed
  then show "\<exists>hs. responses (handle_form_submission w None req st) = responses st @
               [\<lparr> status = 400, headers = hs,
                  body = Json False ''An error occurred. Please try again.'' \<rparr>]"
    using assms
    by (auto simp: handle_form_submission_def send_error_response_def)
qed

theorem unconfigured_response_witness:
  "parse_form (sample_world ada_body ada_form) ada_request = Inr (extract_fields ada_form)
   \<and> missing_fields (extract_fields ada_form) = []
   \<and> (\<exists>hs. responses (handle_form_submission (sample_world ada_body ada_form) None
          ada_request fresh_state) =
        [\<lparr> status = 200, headers = hs,
           body = Json True
             ''Thank you! Your message has been received. We'll get back to you soon.'' \<rparr>])"
  using unconfigured_response [OF parse_ada missing_ada, of fresh_state]
  by (simp add: sample_world_def fresh_state_def parse_ada [unfolded sample_world_def] missing_ada)

section \<open>Configured mode\<close>

lemma smtp_step_cases:
  "step \<in> set [CreateContext, Connect, StartTLS, Login, AsString, SendMail] \<or> step = Quit"
  by (cases step) simp_all

lemma send_notification_email_fault:
  assumes "smtp_fault w step = Some e"
  shows "fst (send_notification_email w config submission st) = False"
proof (cases "first_fault (smtp_fault w) [CreateContext, Connect, StartTLS, Login, AsString, SendMail]")
  case None
  then have "\<forall>s\<in>set [CreateContext, Connect, StartTLS, Login, AsString, SendMail]. smtp_fault w s = None"
    by (simp only: first_fault_None_iff)
  with assms smtp_step_cases[of step] have "smtp_fault w Quit = Some e" by auto
  then show ?thesis
    by (simp add: send_notification_email_def Let_def None split: option.splits)
next
  case (Some a)
  then show ?thesis
    by (simp add: send_notification_email_def Let_def split: option.splits)
qed

lemma send_notification_email_ok:
  assumes "\<forall>step. smtp_fault w step = None"
    and "submission ''name'' = Some n" and "submission ''email'' = Some a"
  shows "fst (send_notification_email w config submission st) = True"
proof -
  have "first_fault (smtp_fault w) [CreateContext, Connect, StartTLS, Login, AsString, SendMail] = None"
    using assms(1) by (simp only: first_fault_None_iff) simp
  then show ?thesis
    using assms by (simp add: send_notification_email_def Let_def)
qed

text \<open>
  C3. For a submission with all five required fields in configured mode: when any step of
  the mail send (TLS context, connection, STARTTLS, login, serialisation, \<open>sendmail\<close>,
  \<open>QUIT\<close>) raises, \<open>_send_notification_email\<close> returns \<open>False\<close> instead of raising and
  the handler answers 400 with the message \<open>Failed to send email. Please try again or
  contact us directly.\<close>; when no step raises it returns \<open>True\<close> and the handler answers
  200 with the message \<open>Thank you! Your message has been sent successfully.\<close>
\<close>

theorem mail_outcome_reported:
  assumes "parse_form w req = Inr submission"
    and "missing_fields submission = []"
  shows "((\<exists>step e. smtp_fault w step = Some e) \<longrightarrow>
            fst (send_notification_email w config submission st) = False
            \<and> (\<exists>hs. responses (handle_form_submission w (Some config) req st) = responses st @
                 [\<lparr> status = 400, headers = hs,
                    body = Json False
                      ''Failed to send email. Please try again or contact us directly.'' \<rparr>]))
       \<and> ((\<forall>step. smtp_fault w step = None) \<longrightarrow>
            fst (send_notification_email w config submission st) = True
            \<and> (\<exists>hs. responses (handle_form_submission w (Some config) req st) = responses st @
                 [\<lparr> status = 200, headers = hs,
                    body = Json True ''Thank you! Your message has been sent successfully.'' \<rparr>]))"
proof (intro conjI impI)
  assume "\<exists>step e. smtp_fault w step = Some e"
  then obtain step e where "smtp_fault w step = Some e" by blast
  then show f: "fst (send_notification_email w config submission st) = False"
    by (rule send_notification_email_fault)
  show "\<exists>hs. responses (handle_form_submission w (Some config) req st) = responses st @
                 [\<lparr> status = 400, headers = hs,
                    body = Json False
                      ''Failed to send email. Please try again or contact us directly.'' \<rparr>]"
    using assms f send_notification_email_frame(2)[of w config submission st]
    by (simp add: handle_form_submission_def send_error_response_def case_prod_beta)
next
  assume ok: "\<forall>step. smtp_fault w step = None"
  from assms(2) obtain n a where "submission ''name'' = Some n" "submission ''email'' = Some a"
    unfolding missing_fields_Nil_iff required_fields_def by auto
  with ok show t: "fst (send_notification_email w config submission st) = True"
    by (rule send_notification_email_ok)
  show "\<exists>hs. responses (handle_form_submission w (Some config) req st) = responses st @
                 [\<lparr> status = 200, headers = hs,
                    body = Json True ''Thank you! Your message has been sent successfully.'' \<rparr>]"
    using assms t send_notification_email_frame(2)[of w config submission st]
    by (simp add: handle_form_submission_def send_success_response_def case_prod_beta)
qed

theorem mail_outcome_reported_witness:
  "parse_form ((sample_world ada_body ada_form)
       \<lparr>smtp_fault := (\<lambda>s. if s = Login then Some SMTPException else None)\<rparr>) ada_request
     = Inr (extract_fields ada_form)
   \<and> missing_fields (extract_fields ada_form) = []
   \<and> (\<exists>hs. responses (handle_form_submission ((sample_world ada_body ada_form)
          \<lparr>smtp_fault := (\<lambda>s. if s = Login then Some SMTPException else None)\<rparr>)
          (Some sample_config) ada_request fresh_state) =
        [\<lparr> status = 400, headers = hs,
           body = Json False
             ''Failed to send email. Please try again or contact us directly.'' \<rparr>])
   \<and> (\<exists>hs. responses (handle_form_submission (sample_world ada_body ada_form)
          (Some sample_config) ada_request fresh_state) =
        [\<lparr> status = 200, headers = hs,
           body = Json True ''Thank you! Your message has been sent successfully.'' \<rparr>])"
proof -
  let ?w = "(sample_world ada_body ada_form)
       \<lparr>smtp_fault := (\<lambda>s. if s = Login then Some SMTPException else None)\<rparr>"
  have p: "parse_form ?w ada_request = Inr (extract_fields ada_form)"
    by (simp add: parse_form_faults parse_ada)
  have bad: "\<exists>step e. smtp_fault ?w step = Some e"
    by (intro exI[of _ Login] exI[of _ SMTPException]) simp
  have good: "\<forall>step. smtp_fault (sample_world ada_body ada_form) step = None"
    by (simp add: sample_world_def)
  from mail_outcome_reported [OF p missing_ada, of sample_config fresh_state] bad
  have 1: "\<exists>hs. responses (handle_form_submission ?w (Some sample_config) ada_request fresh_state) =
        responses fresh_state @ [\<lparr> status = 400, headers = hs,
           body = Json False
             ''Failed to send email. Please try again or contact us directly.'' \<rparr>]"
    by blast
  from mail_outcome_reported [OF parse_ada missing_ada, of sample_config fresh_state] good
  have 2: "\<exists>hs. responses (handle_form_submission (sample_world ada_body ada_form)
          (Some sample_config) ada_request fresh_state) =
        responses fresh_state @ [\<lparr> status = 200, headers = hs,
           body = Json True ''Thank you! Your message has been sent successfully.'' \<rparr>]"
    by blast
  have r: "responses fresh_state = []" by (simp add: fresh_state_def)
  from 1 2 p missing_ada show ?thesis unfolding r by simp
qed

section \<open>The outer exception handler\<close>

text \<open>
  C4, as stated, sends every exception raised in the pipeline, dispatch included, to the
  outer handler and its generic message. It does not hold for the mail variant of
  dispatch: \<open>_send_notification_email\<close> catches its own exceptions, so a connection that
  fails is answered with the "Failed to send email" message instead.
\<close>

theorem mail_fault_not_generic:
  "path ada_request = ''/submit-form''
   \<and> smtp_fault unreachable_mail_world Connect = Some OSError
   \<and> responses (do_POST unreachable_mail_world (Some sample_config) ada_request fresh_state) =
      [\<lparr> status = 400,
         headers = [(''Content-type'', ''application/json''),
                    (''Access-Control-Allow-Origin'', ''*''),
                    (''Access-Control-Allow-Origin'', ''*''),
                    (''Access-Control-Allow-Methods'', ''GET, POST, OPTIONS''),
                    (''Access-Control-Allow-Headers'', ''Content-Type'')],
         body = Json False ''Failed to send email. Please try again or contact us directly.'' \<rparr>]"
proof -
  have "extract_fields ada_form ''name'' = Some ''Ada''"
    by (simp add: extract_fields_def ada_form_def)
  moreover have "path ada_request = ''/submit-form''"
    by (simp add: ada_request_def)
  ultimately show ?thesis
    by (simp add: do_POST_def handle_form_submission_def unreachable_mail_world_def
        parse_form_faults parse_ada missing_ada
        send_notification_email_def send_error_response_def end_headers_def fresh_state_def)
qed

text \<open>
  C4, amended. For a POST to \<open>/submit-form\<close>: an exception that leaves a stage of the
  pipeline (an absent or non-numeric \<open>Content-Length\<close>, reading the body, decoding it,
  \<open>parse_qs\<close>, or the append to the log file in unconfigured mode) is caught by the outer
  handler and answered with status 400 and the message \<open>An error occurred. Please try
  again.\<close> Exceptions of the mail send are caught inside the mail step. Every run of the
  handler emits exactly one response, and its body is a JSON object.
\<close>

theorem uncaught_faults_answered:
  assumes "path req = ''/submit-form''"
  shows "((content_length req = None
           \<or> (\<exists>h. content_length req = Some h \<and> py_int h = Inl e)
           \<or> (\<exists>h n. content_length req = Some h \<and> py_int h = Inr n \<and> rfile_read w n = Inl e)
           \<or> (\<exists>h n d. content_length req = Some h \<and> py_int h = Inr n
                 \<and> rfile_read w n = Inr d \<and> bytes_decode w d = Inl e)
           \<or> (\<exists>h n d t. content_length req = Some h \<and> py_int h = Inr n
                 \<and> rfile_read w n = Inr d \<and> bytes_decode w d = Inr t \<and> parse_qs w t = Inl e)
           \<or> (\<exists>submission. parse_form w req = Inr submission \<and> missing_fields submission = []
                 \<and> cfg = None \<and> fst (log_submission w submission st) = Some e))
          \<longrightarrow> (\<exists>hs. responses (do_POST w cfg req st) = responses st @
                 [\<lparr> status = 400, headers = hs,
                    body = Json False ''An error occurred. Please try again.'' \<rparr>]))
       \<and> (\<exists>r success message. responses (do_POST w cfg req st) = responses st @ [r]
             \<and> body r = Json success message)"
proof (intro conjI impI)
  assume "content_length req = None
           \<or> (\<exists>h. content_length req = Some h \<and> py_int h = Inl e)
           \<or> (\<exists>h n. content_length req = Some h \<and> py_int h = Inr n \<and> rfile_read w n = Inl e)
           \<or> (\<exists>h n d. content_length req = Some h \<and> py_int h = Inr n
                 \<and> rfile_read w n = Inr d \<and> bytes_decode w d = Inl e)
           \<or> (\<exists>h n d t. content_length req = Some h \<and> py_int h = Inr n
                 \<and> rfile_read w n = Inr d \<and> bytes_decode w d = Inr t \<and> parse_qs w t = Inl e)
           \<or> (\<exists>submission. parse_form w req = Inr submission \<and> missing_fields submission = []
                 \<and> cfg = None \<and> fst (log_submission w submission st) = Some e)"
  then consider
      (parse) e' where "parse_form w req = Inl e'"
    | (log) submission where "parse_form w req = Inr submission" "missing_fields submission = []"
        "cfg = None" "fst (log_submission w submission st) = Some e"
    by (auto simp: parse_form_def)
  then show "\<exists>hs. responses (do_POST w cfg req st) = responses st @
                 [\<lparr> status = 400, headers = hs,
                    body = Json False ''An error occurred. Please try again.'' \<rparr>]"
  proof cases
    case parse
    with assms show ?thesis
      by (simp add: do_POST_def handle_form_submission_def send_error_response_def)
  next
    case log
    obtain r st' where l: "log_submission w submission st = (r, st')"
      by (cases "log_submission w submission st")
    with log(4) have "r = Some e" by simp
    moreover from l log_submission_frame(1)[of w submission st] have "responses st' = responses st"
      by simp
    ultimately show ?thesis
      using assms log(1-3) l
      by (simp add: do_POST_def handle_form_submission_def send_error_response_def)
  qed
next
  have n: "responses (snd (send_notification_email w c s st)) = responses st" for c s
    by (rule send_notification_email_frame(2))
  have l: "responses (snd (log_submission w s st)) = responses st" for s
    by (rule log_submission_frame(1))
  have sl: "log_submission w s st = (x, y) \<Longrightarrow> responses y = responses st" for s x y
    using l[of s] by simp
  show "\<exists>r success message. responses (do_POST w cfg req st) = responses st @ [r]
             \<and> body r = Json success message"
    using assms
    by (auto simp: do_POST_def handle_form_submission_def send_error_response_def
        send_success_response_def case_prod_beta n l sl
        split: sum.splits option.splits prod.splits)
qed

theorem uncaught_faults_answered_witness:
  "path \<lparr> path = ''/submit-form'', content_length = None \<rparr> = ''/submit-form''
   \<and> content_length \<lparr> path = ''/submit-form'', content_length = None \<rparr> = None
   \<and> (\<exists>hs. responses (do_POST (sample_world ada_body ada_form) (Some sample_config)
          \<lparr> path = ''/submit-form'', content_length = None \<rparr> fresh_state) =
        [\<lparr> status = 400, headers = hs,
           body = Json False ''An error occurred. Please try again.'' \<rparr>])"
  using uncaught_faults_answered [of "\<lparr> path = ''/submit-form'', content_length = None \<rparr>"
      ValueError "sample_world ada_body ada_form" "Some sample_config" fresh_state]
  by (simp add: fresh_state_def)

section \<open>The configuration loader and a non-numeric port\<close>

lemma py_int_abc: "py_int ''abc'' = Inl ValueError"
  by (simp add: py_int_def str_strip_def is_space_def is_digit_def)

lemma py_int_587: "py_int ''587'' = Inr 587"
  by (simp add: py_int_def str_strip_def is_space_def is_digit_def digit_val_def)

lemma load_email_config_port_error:
  "env ''SMTP_PORT'' = Some s \<Longrightarrow> py_int s = Inl e \<Longrightarrow> load_email_config env = Inl e"
  by (simp add: load_email_config_def dict_get_def)

text \<open>
  C5. The claim is that a non-numeric \<open>SMTP_PORT\<close> makes the loader return "unconfigured".
  The code converts the port before it validates anything and outside any \<open>try\<close>: with
  complete credentials and no \<open>SMTP_PORT\<close> the loader returns the configuration, and with
  \<open>SMTP_PORT=abc\<close> added it raises \<open>ValueError\<close>.
\<close>

theorem bad_port_raises:
  "load_email_config sample_environ = Inr (Some sample_config)
   \<and> load_email_config (sample_environ(''SMTP_PORT'' \<mapsto> ''abc'')) = Inl ValueError"
  by (simp add: load_email_config_def dict_get_def sample_environ_def sample_config_def
      config_missing_fields_def py_int_abc py_int_587)

section \<open>What counts as a missing field\<close>

text \<open>
  C6, as stated, counts a value of whitespace only as missing. It does not hold: the
  validator tests the truth value of the string and trims nothing. A name that is one
  space is missing in the specification's sense, is not reported by \<open>missing_fields\<close>, and
  the submission is accepted with status 200.
\<close>

theorem blank_name_accepted:
  "extract_fields blank_name_form ''name'' = Some '' ''
   \<and> spec_field_missing (extract_fields blank_name_form) ''name''
   \<and> ''name'' \<notin> set (missing_fields (extract_fields blank_name_form))
   \<and> map status (responses (handle_form_submission (sample_world blank_name_body blank_name_form)
        None blank_name_request fresh_state)) = [200]"
proof -
  have n: "extract_fields blank_name_form ''name'' = Some '' ''"
    by (simp add: extract_fields_def blank_name_form_def)
  have s: "spec_field_missing (extract_fields blank_name_form) ''name''"
    by (simp add: spec_field_missing_def n str_strip_def is_space_def)
  have ok: "open_fault (sample_world blank_name_body blank_name_form) = None"
    "write_fault (sample_world blank_name_body blank_name_form) = (\<lambda>k. None)"
    "close_fault (sample_world blank_name_body blank_name_form) = None"
    by (simp_all add: sample_world_def)
  have w: "write_all (\<lambda>k. None) 0 xs c = (None, c @ concat xs)" for xs c
    by (rule write_all_ok) simp
  have "map status (responses (handle_form_submission (sample_world blank_name_body blank_name_form)
        None blank_name_request fresh_state)) = [200]"
    by (simp add: handle_form_submission_def parse_blank_name missing_blank_name
        log_submission_def ok w send_success_response_def fresh_state_def)
  with n s show ?thesis by (simp add: missing_blank_name)
qed

text \<open>
  C6, amended. A required field counts as missing exactly when its key is absent or its
  value is the empty string, and the two cases are treated alike; every non-empty value,
  whitespace included, counts as present. After a successful validation every required
  key is present with a non-empty value.
\<close>

theorem empty_value_is_missing:
  "(field \<in> set required_fields \<longrightarrow>
      (field \<in> set (missing_fields submission)
         \<longleftrightarrow> submission field = None \<or> submission field = Some []))
   \<and> missing_fields (submission(field := None)) = missing_fields (submission(field \<mapsto> []))
   \<and> (submission field = Some v \<and> v \<noteq> [] \<longrightarrow> field \<notin> set (missing_fields submission))
   \<and> (missing_fields submission = [] \<longrightarrow>
        (\<forall>f\<in>set required_fields. \<exists>v. submission f = Some v \<and> v \<noteq> []))"
proof (intro conjI)
  show "field \<in> set required_fields \<longrightarrow>
      (field \<in> set (missing_fields submission)
         \<longleftrightarrow> submission field = None \<or> submission field = Some [])"
    by (auto simp: missing_fields_filter required_fields_def)
  show "missing_fields (submission(field := None)) = missing_fields (submission(field \<mapsto> []))"
    unfolding missing_fields_def by (rule filter_cong) auto
  show "submission field = Some v \<and> v \<noteq> [] \<longrightarrow> field \<notin> set (missing_fields submission)"
    by (auto simp: missing_fields_def)
  show "missing_fields submission = [] \<longrightarrow>
        (\<forall>f\<in>set required_fields. \<exists>v. submission f = Some v \<and> v \<noteq> [])"
    by (simp only: missing_fields_Nil_iff) simp
qed

theorem empty_value_is_missing_witness:
  "''name'' \<in> set required_fields
   \<and> extract_fields ada_form ''name'' = Some ''Ada''
   \<and> missing_fields (extract_fields ada_form) = []
   \<and> ''name'' \<notin> set (missing_fields (extract_fields ada_form))
   \<and> missing_fields ((extract_fields ada_form)(''name'' := None))
       = missing_fields ((extract_fields ada_form)(''name'' \<mapsto> []))
   \<and> (\<exists>v. extract_fields ada_form ''budget'' = Some v \<and> v \<noteq> [])"
proof -
  have n: "extract_fields ada_form ''name'' = Some ''Ada''"
    by (simp add: extract_fields_def ada_form_def)
  have r: "''name'' \<in> set required_fields" "''budget'' \<in> set required_fields"
    by (simp_all add: required_fields_def)
  from empty_value_is_missing [of "''name''" "extract_fields ada_form" "''Ada''"] n r missing_ada
  show ?thesis by simp
qed

section \<open>Newlines in the description\<close>

lemma ada_fields:
  "extract_fields ada_form ''name'' = Some ''Ada''"
  "extract_fields ada_form ''email'' = Some ''ada@x.com''"
  "extract_fields ada_form ''company'' = None"
  "extract_fields ada_form ''project_type'' = Some ''web''"
  "extract_fields ada_form ''budget'' = Some ''$10k''"
  "extract_fields ada_form ''timeline'' = None"
  "extract_fields ada_form ''location'' = None"
  "extract_fields ada_form ''description'' = Some ''Need a site.\<newline>Fast turnaround.''"
  by (simp_all add: extract_fields_def ada_form_def)

text \<open>
  C7. The claim is that a newline in the description becomes a line-break element in the
  mail body. For the description \<open>Need a site.\<close>, newline, \<open>Fast turnaround.\<close> the mail
  body contains the description with its newline character unchanged and contains no
  \<open><br>\<close> at all: the replacement looks for a backslash followed by \<open>n\<close>, which it does
  turn into \<open><br>\<close>.
\<close>

theorem newline_not_converted:
  "dict_get (extract_fields ada_form) ''description'' ''N/A''
     = ''Need a site.\<newline>Fast turnaround.''
   \<and> sublist ''<p>Need a site.\<newline>Fast turnaround.</p>''
        (format_email_body (sample_world ada_body ada_form) (extract_fields ada_form))
   \<and> \<not> sublist ''<br>''
        (format_email_body (sample_world ada_body ada_form) (extract_fields ada_form))
   \<and> str_replace [CHR 0x5C, CHR ''n''] ''<br>'' [CHR ''a'', CHR 0x5C, CHR ''n'', CHR ''b'']
     = ''a<br>b''"
  by (simp add: format_email_body_def dict_get_def ada_fields sample_world_def sublist_code)

section \<open>The log entry\<close>

text \<open>
  C8. For a submission with all five required fields in unconfigured mode, when the log
  file can be opened, written and closed (neither \<open>open\<close>, nor one of the ten writes, nor
  the flush and close on leaving the \<open>with\<close> block raises), the file afterwards is its
  former content (empty when the file did not exist) followed by exactly one block: an empty line and a line of fifty
  \<open>=\<close>, the timestamp line, then the lines Name, Email, Company, Project Type, Budget,
  Timeline, Location and Description. Required values are written as submitted and an
  absent optional field is written as \<open>N/A\<close>.
\<close>

theorem log_block_appended:
  assumes "parse_form w req = Inr submission"
    and "missing_fields submission = []"
    and "open_fault w = None"
    and "\<forall>k<10. write_fault w k = None"
    and "close_fault w = None"
    and "submission ''name'' = Some name"
    and "submission ''email'' = Some email"
    and "submission ''project_type'' = Some project_type"
    and "submission ''budget'' = Some budget"
    and "submission ''description'' = Some description"
  shows "log_file (handle_form_submission w None req st) =
     Some ((case log_file st of None \<Rightarrow> [] | Some old \<Rightarrow> old) @
       ''\<newline>'' @ replicate 50 (CHR ''='') @ ''\<newline>'' @
       ''Timestamp: '' @ now_isoformat w @ ''\<newline>'' @
       ''Name: '' @ name @ ''\<newline>'' @
       ''Email: '' @ email @ ''\<newline>'' @
       ''Company: '' @ (case submission ''company'' of None \<Rightarrow> ''N/A'' | Some v \<Rightarrow> v) @ ''\<newline>'' @
       ''Project Type: '' @ project_type @ ''\<newline>'' @
       ''Budget: '' @ budget @ ''\<newline>'' @
       ''Timeline: '' @ (case submission ''timeline'' of None \<Rightarrow> ''N/A'' | Some v \<Rightarrow> v) @ ''\<newline>'' @
       ''Location: '' @ (case submission ''location'' of None \<Rightarrow> ''N/A'' | Some v \<Rightarrow> v) @ ''\<newline>'' @
       ''Description: '' @ description @ ''\<newline>'')"
proof -
  have len: "length (log_writes w submission) = 10" by (simp add: log_writes_def)
  have wr: "write_all (write_fault w) 0 (log_writes w submission) []
          = (None, [] @ concat (log_writes w submission))"
    by (rule write_all_ok) (use assms(4) len in simp)
  have "log_file (handle_form_submission w None req st) =
      Some ((case log_file st of None \<Rightarrow> [] | Some old \<Rightarrow> old) @ concat (log_writes w submission))"
    using assms(1-3,5)
    by (simp add: handle_form_submission_def log_submission_def wr send_success_response_def)
  also have "concat (log_writes w submission) =
       ''\<newline>'' @ replicate 50 (CHR ''='') @ ''\<newline>'' @
       ''Timestamp: '' @ now_isoformat w @ ''\<newline>'' @
       ''Name: '' @ name @ ''\<newline>'' @
       ''Email: '' @ email @ ''\<newline>'' @
       ''Company: '' @ (case submission ''company'' of None \<Rightarrow> ''N/A'' | Some v \<Rightarrow> v) @ ''\<newline>'' @
       ''Project Type: '' @ project_type @ ''\<newline>'' @
       ''Budget: '' @ budget @ ''\<newline>'' @
       ''Timeline: '' @ (case submission ''timeline'' of None \<Rightarrow> ''N/A'' | Some v \<Rightarrow> v) @ ''\<newline>'' @
       ''Location: '' @ (case submission ''location'' of None \<Rightarrow> ''N/A'' | Some v \<Rightarrow> v) @ ''\<newline>'' @
       ''Description: '' @ description @ ''\<newline>''"
    using assms(6-10) by (simp add: log_writes_def dict_get_def)
  finally show ?thesis .
qed

theorem log_block_appended_witness:
  "parse_form (sample_world ada_body ada_form) ada_request = Inr (extract_fields ada_form)
   \<and> missing_fields (extract_fields ada_form) = []
   \<and> open_fault (sample_world ada_body ada_form) = None
   \<and> write_fault (sample_world ada_body ada_form) 0 = None
   \<and> write_fault (sample_world ada_body ada_form) 9 = None
   \<and> close_fault (sample_world ada_body ada_form) = None
   \<and> log_file (handle_form_submission (sample_world ada_body ada_form) None ada_request
        (fresh_state\<lparr>log_file := Some ''earlier entries\<newline>''\<rparr>)) =
      Some (''earlier entries\<newline>'' @
        ''\<newline>==================================================\<newline>'' @
        ''Timestamp: 2024-05-17T09:30:00.123456\<newline>'' @
        ''Name: Ada\<newline>'' @
        ''Email: ada@x.com\<newline>'' @
        ''Company: N/A\<newline>'' @
        ''Project Type: web\<newline>'' @
        ''Budget: $10k\<newline>'' @
        ''Timeline: N/A\<newline>'' @
        ''Location: N/A\<newline>'' @
        ''Description: Need a site.\<newline>Fast turnaround.\<newline>'')"
proof -
  have o: "open_fault (sample_world ada_body ada_form) = None"
    and wf: "\<forall>k<10. write_fault (sample_world ada_body ada_form) k = None"
    and cl: "close_fault (sample_world ada_body ada_form) = None"
    and ts: "now_isoformat (sample_world ada_body ada_form) = ''2024-05-17T09:30:00.123456''"
    by (simp_all add: sample_world_def)
  have r: "replicate 50 (CHR ''='') = ''==================================================''"
    by code_simp
  from log_block_appended [OF parse_ada missing_ada o wf cl ada_fields(1,2,4,5,8),
      of "fresh_state\<lparr>log_file := Some ''earlier entries\<newline>''\<rparr>"]
  show ?thesis
    using parse_ada missing_ada o wf cl by (simp add: ts ada_fields r)
qed

section \<open>Status and success flag\<close>

text \<open>
  C9. Every run of the form handler emits one response, which is either status 200 with
  \<open>success\<close> true or status 400 with \<open>success\<close> false.
\<close>

theorem status_matches_success:
  "\<exists>r. responses (handle_form_submission w cfg req st) = responses st @ [r]
       \<and> ((status r = 200 \<and> (\<exists>message. body r = Json True message))
          \<or> (status r = 400 \<and> (\<exists>message. body r = Json False message)))"
proof -
  have n: "responses (snd (send_notification_email w c s st)) = responses st" for c s
    by (rule send_notification_email_frame(2))
  have l: "responses (snd (log_submission w s st)) = responses st" for s
    by (rule log_submission_frame(1))
  have sl: "log_submission w s st = (x, y) \<Longrightarrow> responses y = responses st" for s x y
    using l[of s] by simp
  show ?thesis
    by (auto simp: handle_form_submission_def send_error_response_def
        send_success_response_def case_prod_beta n l sl
        split: sum.splits option.splits prod.splits)
qed

theorem status_matches_success_witness:
  "\<exists>r. responses (handle_form_submission unreachable_mail_world (Some sample_config)
          ada_request fresh_state) = [r]
       \<and> ((status r = 200 \<and> (\<exists>message. body r = Json True message))
          \<or> (status r = 400 \<and> (\<exists>message. body r = Json False message)))"
  using status_matches_success [of unreachable_mail_world "Some sample_config" ada_request fresh_state]
  by (simp add: fresh_state_def)

section \<open>The log file in configured mode\<close>

text \<open>
  C10. In configured mode the log file after the request is the log file before it,
  whatever the request and whatever the outcome of the mail send: a failed send is not
  logged as a fallback.
\<close>

theorem configured_mode_keeps_log:
  "log_file (handle_form_submission w (Some config) req st) = log_file st"
proof -
  have n: "log_file (snd (send_notification_email w config s st)) = log_file st" for s
    by (rule send_notification_email_frame(1))
  show ?thesis
    by (simp add: handle_form_submission_def send_error_response_def
        send_success_response_def case_prod_beta n split: sum.splits)
qed

theorem configured_mode_keeps_log_witness:
  "smtp_fault unreachable_mail_world Connect = Some OSError
   \<and> log_file (handle_form_submission unreachable_mail_world (Some sample_config) ada_request
        (fresh_state\<lparr>log_file := Some ''earlier entries\<newline>''\<rparr>))
     = Some ''earlier entries\<newline>''"
  using configured_mode_keeps_log [of unreachable_mail_world sample_config ada_request
      "fresh_state\<lparr>log_file := Some ''earlier entries\<newline>''\<rparr>"]
  by (simp add: unreachable_mail_world_def)

end
